theory Spec2Isabelle
  imports Main "HOL-Library.Product_Lexorder"
begin

section \<open>Exceptions and results\<close>

text \<open>
  The Python exceptions the program can raise. A computation that may raise returns
  \<open>error + 'a\<close>, with \<open>Inl\<close> the exception. \<open>ValueError\<close> carries the text that
  \<open>str(e)\<close> yields; the other exceptions are never printed by the program.
\<close>

datatype error =
    ValueError string
  | IndexError
  | KeyError
  | TypeError
  | AttributeError
  | OverflowError
  | EOFError

section \<open>Characters and strings\<close>

text \<open>
  A Python \<open>str\<close> is modelled as a \<open>string\<close>, a list of 8-bit characters (the code points
  below 256). In that range the characters of Unicode category Nd, which the regular
  expression class \<open>\d\<close> matches, are \<open>0\<close> to \<open>9\<close>.
\<close>

definition is_digit :: "char \<Rightarrow> bool" where
  "is_digit c = (c \<in> set ''0123456789'')"

definition digit_val :: "char \<Rightarrow> nat" where
  "digit_val c = of_char c - 48"

definition digit_char :: "nat \<Rightarrow> char" where
  "digit_char n = ''0123456789'' ! (n mod 10)"

section \<open>Fields\<close>

text \<open>
  \<open>class Field\<close>: an object with the single attribute \<open>value\<close>; \<open>__str__\<close> returns
  \<open>str(self.value)\<close>, which for a \<open>str\<close> value is the value itself.
\<close>

datatype 'a Field = Field (field_value: 'a)


text \<open>\<open>Name.__init__\<close>: an empty value raises.\<close>

definition Name :: "string \<Rightarrow> error + string Field" where
  "Name v = (if v = [] then Inl (ValueError ''Name cannot be empty.'') else Inr (Field v))"

text \<open>
  \<open>re.fullmatch(r"\d{n}", s)\<close>: the matcher consumes \<open>n\<close> digit characters and then
  requires the end of the string.
\<close>

fun fullmatch_digits :: "nat \<Rightarrow> string \<Rightarrow> bool" where
  "fullmatch_digits 0 s = (s = [])"
| "fullmatch_digits (Suc n) [] = False"
| "fullmatch_digits (Suc n) (c # s) = (is_digit c \<and> fullmatch_digits n s)"

definition Phone :: "string \<Rightarrow> error + string Field" where
  "Phone v =
     (if \<not> fullmatch_digits 10 v
      then Inl (ValueError ''Phone number must consist of exactly 10 digits.'')
      else Inr (Field v))"

section \<open>Calendar arithmetic of the datetime library\<close>

text \<open>
  The proleptic Gregorian calendar as Python's \<open>datetime\<close> module computes it:
  \<open>_is_leap\<close>, \<open>_days_in_month\<close>, \<open>_days_before_year\<close>, \<open>_days_before_month\<close> and
  \<open>_ymd2ord\<close>. The month functions are only called with a month from 1 to 12.
\<close>

definition is_leap :: "nat \<Rightarrow> bool" where
  "is_leap y = (y mod 4 = 0 \<and> (y mod 100 \<noteq> 0 \<or> y mod 400 = 0))"

definition days_in_month :: "nat \<Rightarrow> nat \<Rightarrow> nat" where
  "days_in_month y m =
     (if m = 2 then (if is_leap y then 29 else 28)
      else if m = 4 \<or> m = 6 \<or> m = 9 \<or> m = 11 then 30
      else 31)"

definition days_before_year :: "nat \<Rightarrow> nat" where
  "days_before_year y' = (let y = y' - 1 in y * 365 + y div 4 - y div 100 + y div 400)"

definition days_before_month :: "nat \<Rightarrow> nat \<Rightarrow> nat" where
  "days_before_month y m =
     sum_list (take (m - 1) [31, 28, 31, 30, 31, 30, 31, 31, 30, 31, 30, 31])
     + (if m > 2 \<and> is_leap y then 1 else 0)"

definition ymd2ord :: "nat \<Rightarrow> nat \<Rightarrow> nat \<Rightarrow> nat" where
  "ymd2ord y m d = days_before_year y + days_before_month y m + d"

text \<open>Decimal rendering of a natural number, and zero padding to a width.\<close>

fun show_nat :: "nat \<Rightarrow> string" where
  "show_nat n = (if n < 10 then [digit_char n] else show_nat (n div 10) @ [digit_char (n mod 10)])"

declare show_nat.simps [simp del]

definition zfill :: "nat \<Rightarrow> string \<Rightarrow> string" where
  "zfill w s = replicate (w - length s) (CHR ''0'') @ s"

text \<open>
  A \<open>datetime\<close> object (naive, without time zone). Objects are compared as the tuples of
  their fields, in lexicographic order.
\<close>

record datetime =
  year :: nat
  month :: nat
  day :: nat
  hour :: nat
  minute :: nat
  second :: nat
  microsecond :: nat

definition dt_key :: "datetime \<Rightarrow> nat \<times> nat \<times> nat \<times> nat \<times> nat \<times> nat \<times> nat" where
  "dt_key t = (year t, month t, day t, hour t, minute t, second t, microsecond t)"

definition dt_le :: "datetime \<Rightarrow> datetime \<Rightarrow> bool" where
  "dt_le a b = (dt_key a \<le> dt_key b)"

definition dt_less :: "datetime \<Rightarrow> datetime \<Rightarrow> bool" where
  "dt_less a b = (dt_key a < dt_key b)"

text \<open>
  The checks of the date fields that every construction of a \<open>datetime\<close> performs; the
  years of a \<open>datetime\<close> run from 1 to 9999.
\<close>

definition check_date_fields :: "nat \<Rightarrow> nat \<Rightarrow> nat \<Rightarrow> error + unit" where
  "check_date_fields y m d =
     (if \<not> (1 \<le> y \<and> y \<le> 9999) then Inl (ValueError (''year '' @ show_nat y @ '' is out of range''))
      else if \<not> (1 \<le> m \<and> m \<le> 12) then Inl (ValueError ''month must be in 1..12'')
      else if \<not> (1 \<le> d \<and> d \<le> days_in_month y m) then Inl (ValueError ''day is out of range for month'')
      else Inr ())"

text \<open>\<open>t.replace(year=y)\<close>: a new object with the year replaced, checked like any other.\<close>

definition replace_year :: "datetime \<Rightarrow> nat \<Rightarrow> error + datetime" where
  "replace_year t y =
     (case check_date_fields y (month t) (day t) of
        Inl e \<Rightarrow> Inl e
      | Inr _ \<Rightarrow> Inr (t\<lparr>year := y\<rparr>))"

text \<open>
  \<open>t + timedelta(days=n)\<close>: the calendar day is advanced \<open>n\<close> times and the time of day is
  kept; a result after the year 9999 raises OverflowError.
\<close>

definition next_day :: "datetime \<Rightarrow> datetime" where
  "next_day t =
     (if day t < days_in_month (year t) (month t) then t\<lparr>day := day t + 1\<rparr>
      else if month t < 12 then t\<lparr>month := month t + 1, day := 1\<rparr>
      else t\<lparr>year := year t + 1, month := 1, day := 1\<rparr>)"

fun add_days :: "nat \<Rightarrow> datetime \<Rightarrow> datetime" where
  "add_days 0 t = t"
| "add_days (Suc n) t = add_days n (next_day t)"

definition plus_timedelta_days :: "datetime \<Rightarrow> nat \<Rightarrow> error + datetime" where
  "plus_timedelta_days t n =
     (let t' = add_days n t in if year t' > 9999 then Inl OverflowError else Inr t')"

text \<open>
  \<open>(a - b).days\<close>: the difference of two objects is a \<open>timedelta\<close>, normalised so that its
  seconds and microseconds are not negative; its \<open>days\<close> is the floor of the difference
  in days.
\<close>

definition dt_micros :: "datetime \<Rightarrow> int" where
  "dt_micros t =
     (((int (ymd2ord (year t) (month t) (day t)) * 24 + int (hour t)) * 60 + int (minute t)) * 60
        + int (second t)) * 1000000 + int (microsecond t)"

definition minus_days :: "datetime \<Rightarrow> datetime \<Rightarrow> int" where
  "minus_days a b = (dt_micros a - dt_micros b) div 86400000000"

section \<open>Birthday: parsing and formatting dates\<close>

text \<open>
  \<open>datetime.strptime(value, "%d.%m.%Y")\<close> compiles the format to the regular expression
  \<^verbatim>\<open>(?P<d>3[0-1]|[1-2]\d|0[1-9]|[1-9]| [1-9])\.(?P<m>1[0-2]|0[1-9]|[1-9])\.(?P<Y>\d\d\d\d)\<close>
  and takes the first match at the start of the string that a backtracking matcher finds.
  Each piece below returns its matches in the order the matcher tries them, as pairs of
  the matched text and the remaining input.
\<close>

definition re_d :: "string \<Rightarrow> (string \<times> string) list" where
  "re_d s =
     (case s of
        c1 # c2 # r \<Rightarrow>
          (if c1 = CHR ''3'' \<and> c2 \<in> set ''01'' then [([c1, c2], r)] else []) @
          (if c1 \<in> set ''12'' \<and> is_digit c2 then [([c1, c2], r)] else []) @
          (if c1 = CHR ''0'' \<and> c2 \<in> set ''123456789'' then [([c1, c2], r)] else [])
      | _ \<Rightarrow> []) @
     (case s of
        c1 # r \<Rightarrow> if c1 \<in> set ''123456789'' then [([c1], r)] else []
      | _ \<Rightarrow> []) @
     (case s of
        c1 # c2 # r \<Rightarrow>
          if c1 = CHR '' '' \<and> c2 \<in> set ''123456789'' then [([c1, c2], r)] else []
      | _ \<Rightarrow> [])"

definition re_m :: "string \<Rightarrow> (string \<times> string) list" where
  "re_m s =
     (case s of
        c1 # c2 # r \<Rightarrow>
          (if c1 = CHR ''1'' \<and> c2 \<in> set ''012'' then [([c1, c2], r)] else []) @
          (if c1 = CHR ''0'' \<and> c2 \<in> set ''123456789'' then [([c1, c2], r)] else [])
      | _ \<Rightarrow> []) @
     (case s of
        c1 # r \<Rightarrow> if c1 \<in> set ''123456789'' then [([c1], r)] else []
      | _ \<Rightarrow> [])"

definition re_Y :: "string \<Rightarrow> (string \<times> string) list" where
  "re_Y s =
     (case s of
        c1 # c2 # c3 # c4 # r \<Rightarrow>
          if is_digit c1 \<and> is_digit c2 \<and> is_digit c3 \<and> is_digit c4
          then [([c1, c2, c3, c4], r)] else []
      | _ \<Rightarrow> [])"

definition re_dot :: "string \<Rightarrow> string list" where
  "re_dot s = (case s of c # r \<Rightarrow> if c = CHR ''.'' then [r] else [] | _ \<Rightarrow> [])"

definition re_dmY :: "string \<Rightarrow> (string \<times> string \<times> string \<times> string) list" where
  "re_dmY s =
     concat (map (\<lambda>(d, r1).
       concat (map (\<lambda>r2.
         concat (map (\<lambda>(m, r3).
           concat (map (\<lambda>r4.
             map (\<lambda>(y, r5). (d, m, y, r5)) (re_Y r4))
           (re_dot r3)))
         (re_m r2)))
       (re_dot r1)))
     (re_d s))"

text \<open>\<open>int(text)\<close> on a matched group: decimal digits, after an optional leading space.\<close>

definition int_of_group :: "string \<Rightarrow> nat" where
  "int_of_group s =
     foldl (\<lambda>n c. 10 * n + digit_val c) 0 (dropWhile (\<lambda>c. c = CHR '' '') s)"

text \<open>
  \<open>strptime\<close>: no match, unconverted data after the match, and date fields that are not
  a date of the calendar all raise ValueError. The result is midnight of the parsed day.
\<close>

definition strptime_dmY :: "string \<Rightarrow> error + datetime" where
  "strptime_dmY s =
     (case re_dmY s of
        [] \<Rightarrow> Inl (ValueError ''time data does not match format'')
      | (d, m, y, rest) # _ \<Rightarrow>
          if rest \<noteq> [] then Inl (ValueError ''unconverted data remains'')
          else
            (case check_date_fields (int_of_group y) (int_of_group m) (int_of_group d) of
               Inl e \<Rightarrow> Inl e
             | Inr _ \<Rightarrow>
                 Inr \<lparr>year = int_of_group y, month = int_of_group m, day = int_of_group d,
                      hour = 0, minute = 0, second = 0, microsecond = 0\<rparr>))"

text \<open>
  \<open>Birthday.__init__\<close>: every ValueError of \<open>strptime\<close> is replaced by the validator's
  own ValueError.
\<close>

definition Birthday :: "string \<Rightarrow> error + datetime Field" where
  "Birthday v =
     (case strptime_dmY v of
        Inr t \<Rightarrow> Inr (Field t)
      | Inl (ValueError _) \<Rightarrow> Inl (ValueError ''Invalid date format. Use DD.MM.YYYY.'')
      | Inl e \<Rightarrow> Inl e)"

text \<open>
  \<open>t.strftime("%d.%m.%Y")\<close>, as the library documents the directives: the day and the
  month zero-padded to two digits, the year with century zero-padded to four digits.
\<close>

definition strftime_dmY :: "datetime \<Rightarrow> string" where
  "strftime_dmY t =
     zfill 2 (show_nat (day t)) @ ''.'' @ zfill 2 (show_nat (month t)) @ ''.'' @
     zfill 4 (show_nat (year t))"

section \<open>Record\<close>

text \<open>
  \<open>class Record\<close>: a name, the list of phones and an optional birthday. A method mutates
  the object; here it takes the record and returns what it returns or raises, together
  with the record as the call leaves it.
\<close>

record Record =
  name :: "string Field"
  phones :: "string Field list"
  birthday :: "datetime Field option"

definition Record_init :: "string \<Rightarrow> error + Record" where
  "Record_init n =
     (case Name n of
        Inl e \<Rightarrow> Inl e
      | Inr nm \<Rightarrow> Inr \<lparr>name = nm, phones = [], birthday = None\<rparr>)"

definition Record_add_phone :: "string \<Rightarrow> Record \<Rightarrow> (error + unit) \<times> Record" where
  "Record_add_phone phone r =
     (case Phone phone of
        Inl e \<Rightarrow> (Inl e, r)
      | Inr p \<Rightarrow> (Inr (), r\<lparr>phones := phones r @ [p]\<rparr>))"

definition Record_remove_phone :: "string \<Rightarrow> Record \<Rightarrow> (error + unit) \<times> Record" where
  "Record_remove_phone phone r =
     (Inr (), r\<lparr>phones := filter (\<lambda>p. field_value p \<noteq> phone) (phones r)\<rparr>)"

text \<open>
  \<open>edit_phone\<close>: the loop over \<open>enumerate(self.phones)\<close>, from index \<open>i\<close> on. At the first
  phone equal to \<open>old_phone\<close> the new Phone is built, which may raise, and is then stored
  at that index; after the loop the method raises.
\<close>

function Record_edit_phone_from :: "nat \<Rightarrow> string \<Rightarrow> string \<Rightarrow> Record \<Rightarrow> (error + unit) \<times> Record" where
  "Record_edit_phone_from i old_phone new_phone r =
     (if i < length (phones r) then
        (if field_value (phones r ! i) = old_phone then
           (case Phone new_phone of
              Inl e \<Rightarrow> (Inl e, r)
            | Inr p \<Rightarrow> (Inr (), r\<lparr>phones := (phones r)[i := p]\<rparr>))
         else Record_edit_phone_from (i + 1) old_phone new_phone r)
      else (Inl (ValueError (''Phone number '' @ old_phone @ '' not found.'')), r))"
  by pat_completeness auto
termination
  by (relation "measure (\<lambda>(i, old_phone, new_phone, r). length (phones r) - i)") auto

declare Record_edit_phone_from.simps [simp del]

definition Record_edit_phone :: "string \<Rightarrow> string \<Rightarrow> Record \<Rightarrow> (error + unit) \<times> Record" where
  "Record_edit_phone old_phone new_phone r = Record_edit_phone_from 0 old_phone new_phone r"

definition Record_add_birthday :: "string \<Rightarrow> Record \<Rightarrow> (error + unit) \<times> Record" where
  "Record_add_birthday b r =
     (case Birthday b of
        Inl e \<Rightarrow> (Inl e, r)
      | Inr d \<Rightarrow> (Inr (), r\<lparr>birthday := Some d\<rparr>))"

text \<open>
  \<open>days_to_birthday\<close>; \<open>today\<close> is what \<open>datetime.today()\<close> returns when the method
  runs, the current date with the current time of day.
\<close>

definition Record_days_to_birthday :: "datetime \<Rightarrow> Record \<Rightarrow> error + int option" where
  "Record_days_to_birthday today r =
     (case birthday r of
        None \<Rightarrow> Inr None
      | Some b \<Rightarrow>
          (case replace_year (field_value b) (year today) of
             Inl e \<Rightarrow> Inl e
           | Inr next_birthday \<Rightarrow>
               if dt_less next_birthday today then
                 (case replace_year next_birthday (year today + 1) of
                    Inl e \<Rightarrow> Inl e
                  | Inr next_birthday' \<Rightarrow> Inr (Some (minus_days next_birthday' today)))
               else Inr (Some (minus_days next_birthday today))))"

text \<open>\<open>sep.join(xs)\<close>.\<close>

fun join :: "string \<Rightarrow> string list \<Rightarrow> string" where
  "join sep [] = []"
| "join sep [x] = x"
| "join sep (x # y # zs) = x @ sep @ join sep (y # zs)"

definition Record_str :: "Record \<Rightarrow> string" where
  "Record_str r =
     ''Contact name: '' @ field_value (name r) @ '', phones: '' @
     join ''; '' (map field_value (phones r)) @ '', birthday: '' @
     (case birthday r of Some b \<Rightarrow> strftime_dmY (field_value b) | None \<Rightarrow> ''N/A'')"

section \<open>AddressBook\<close>

text \<open>
  \<open>class AddressBook(UserDict)\<close>: a dictionary from names to records, which keeps the
  order of insertion. It is an association list with one entry for each key;
  \<open>dict_set\<close> is the assignment \<open>data[k] = v\<close>, which keeps the position of a key that is
  already there and appends a new key.
\<close>

type_synonym AddressBook = "(string \<times> Record) list"

fun dict_set :: "'k \<Rightarrow> 'v \<Rightarrow> ('k \<times> 'v) list \<Rightarrow> ('k \<times> 'v) list" where
  "dict_set k v [] = [(k, v)]"
| "dict_set k v ((k', v') # kvs) =
     (if k = k' then (k, v) # kvs else (k', v') # dict_set k v kvs)"

definition AddressBook_add_record :: "Record \<Rightarrow> AddressBook \<Rightarrow> AddressBook" where
  "AddressBook_add_record record book = dict_set (field_value (name record)) record book"

definition AddressBook_find :: "string \<Rightarrow> AddressBook \<Rightarrow> Record option" where
  "AddressBook_find n book = map_of book n"

text \<open>
  The records of the dictionary are objects that only the dictionary refers to: a
  handler looks one up under a key, keeps the reference and mutates the object through
  it. \<open>mutated key record book\<close> is the dictionary after the object stored under
  \<open>key\<close> has reached the state \<open>record\<close>.
\<close>

definition mutated :: "string \<Rightarrow> Record \<Rightarrow> AddressBook \<Rightarrow> AddressBook" where
  "mutated key record book = dict_set key record book"

text \<open>
  The list comprehension of \<open>upcoming_birthdays\<close>: the condition is evaluated for each
  record in order, and the first exception ends the comprehension.
\<close>

fun comprehension :: "('a \<Rightarrow> error + bool) \<Rightarrow> 'a list \<Rightarrow> error + 'a list" where
  "comprehension c [] = Inr []"
| "comprehension c (x # xs) =
     (case c x of
        Inl e \<Rightarrow> Inl e
      | Inr keep \<Rightarrow>
          (case comprehension c xs of
             Inl e \<Rightarrow> Inl e
           | Inr out \<Rightarrow> Inr (if keep then x # out else out)))"

definition upcoming_condition :: "datetime \<Rightarrow> datetime \<Rightarrow> Record \<Rightarrow> error + bool" where
  "upcoming_condition today next_week record =
     (case birthday record of
        None \<Rightarrow> Inr False
      | Some b \<Rightarrow>
          (case replace_year (field_value b) (year today) of
             Inl e \<Rightarrow> Inl e
           | Inr c \<Rightarrow> Inr (dt_le today c \<and> dt_le c next_week)))"

definition AddressBook_upcoming_birthdays :: "datetime \<Rightarrow> AddressBook \<Rightarrow> error + Record list" where
  "AddressBook_upcoming_birthdays today book =
     (case plus_timedelta_days today 7 of
        Inl e \<Rightarrow> Inl e
      | Inr next_week \<Rightarrow> comprehension (upcoming_condition today next_week) (map snd book))"

definition AddressBook_str :: "AddressBook \<Rightarrow> string" where
  "AddressBook_str book = join [CHR 0x0A] (map Record_str (map snd book))"

section \<open>Command handlers\<close>

text \<open>
  The messages of the ValueError that unpacking an argument list raises: too few values
  for a target list with a starred name, too few and too many for one without.
\<close>

definition unpack_at_least :: "nat \<Rightarrow> nat \<Rightarrow> error" where
  "unpack_at_least k n =
     ValueError (''not enough values to unpack (expected at least '' @ show_nat k @ '', got '' @
       show_nat n @ '')'')"

definition unpack_not_enough :: "nat \<Rightarrow> nat \<Rightarrow> error" where
  "unpack_not_enough k n =
     ValueError (''not enough values to unpack (expected '' @ show_nat k @ '', got '' @
       show_nat n @ '')'')"

definition unpack_too_many :: "nat \<Rightarrow> error" where
  "unpack_too_many k = ValueError (''too many values to unpack (expected '' @ show_nat k @ '')'')"

text \<open>
  The decorator \<open>input_error\<close>: a ValueError becomes its text, IndexError and KeyError
  become fixed messages, and every other exception passes through. The state is what the
  wrapped function left.
\<close>

definition input_error :: "(error + string) \<times> 's \<Rightarrow> (error + string) \<times> 's" where
  "input_error res =
     (case res of
        (Inr m, s) \<Rightarrow> (Inr m, s)
      | (Inl (ValueError msg), s) \<Rightarrow> (Inr msg, s)
      | (Inl IndexError, s) \<Rightarrow> (Inr ''Error: Missing arguments.'', s)
      | (Inl KeyError, s) \<Rightarrow> (Inr ''Error: Contact not found.'', s)
      | (Inl e, s) \<Rightarrow> (Inl e, s))"

definition greet :: "string list \<Rightarrow> AddressBook \<Rightarrow> (error + string) \<times> AddressBook" where
  "greet args book = (Inr ''How can I help you?'', book)"

text \<open>
  \<open>add_contact\<close>, the function under the decorator. A record that is not found is created
  and added to the book before the phone and the birthday are looked at.
\<close>

definition add_contact_body :: "string list \<Rightarrow> AddressBook \<Rightarrow> (error + string) \<times> AddressBook" where
  "add_contact_body args book =
     (case args of
        n # phone # other \<Rightarrow>
          (let bday = (case other of [] \<Rightarrow> None | b # _ \<Rightarrow> Some b) in
           (case (case AddressBook_find n book of
                    None \<Rightarrow>
                      (case Record_init n of
                         Inl e \<Rightarrow> Inl e
                       | Inr record \<Rightarrow>
                           Inr (record, AddressBook_add_record record book, ''Contact added.''))
                  | Some record \<Rightarrow> Inr (record, book, ''Contact updated.'')) of
              Inl e \<Rightarrow> (Inl e, book)
            | Inr (record, book1, message) \<Rightarrow>
                (case (if phone \<noteq> [] then Record_add_phone phone record else (Inr (), record)) of
                   (Inl e, record1) \<Rightarrow> (Inl e, mutated n record1 book1)
                 | (Inr _, record1) \<Rightarrow>
                     (case (case bday of
                              None \<Rightarrow> (Inr (), record1)
                            | Some b \<Rightarrow>
                                if b \<noteq> [] then Record_add_birthday b record1
                                else (Inr (), record1)) of
                        (Inl e, record2) \<Rightarrow> (Inl e, mutated n record2 book1)
                      | (Inr _, record2) \<Rightarrow> (Inr message, mutated n record2 book1)))))
      | _ \<Rightarrow> (Inl (unpack_at_least 2 (length args)), book))"

definition add_contact :: "string list \<Rightarrow> AddressBook \<Rightarrow> (error + string) \<times> AddressBook" where
  "add_contact args book = input_error (add_contact_body args book)"

definition change_contact_body :: "string list \<Rightarrow> AddressBook \<Rightarrow> (error + string) \<times> AddressBook" where
  "change_contact_body args book =
     (case args of
        [n, old_phone, new_phone] \<Rightarrow>
          (case AddressBook_find n book of
             Some record \<Rightarrow>
               (case Record_edit_phone old_phone new_phone record of
                  (Inl e, record1) \<Rightarrow> (Inl e, mutated n record1 book)
                | (Inr _, record1) \<Rightarrow> (Inr ''Phone number updated.'', mutated n record1 book))
           | None \<Rightarrow> (Inr ''Contact not found.'', book))
      | _ \<Rightarrow>
          if length args < 3 then (Inl (unpack_not_enough 3 (length args)), book)
          else (Inl (unpack_too_many 3), book))"

definition change_contact :: "string list \<Rightarrow> AddressBook \<Rightarrow> (error + string) \<times> AddressBook" where
  "change_contact args book = input_error (change_contact_body args book)"

definition show_phone_body :: "string list \<Rightarrow> AddressBook \<Rightarrow> (error + string) \<times> AddressBook" where
  "show_phone_body args book =
     (case args of
        n # _ \<Rightarrow>
          (case AddressBook_find n book of
             Some record \<Rightarrow>
               (Inr (n @ '': '' @ join '', '' (map field_value (phones record))), book)
           | None \<Rightarrow> (Inr ''Contact not found.'', book))
      | [] \<Rightarrow> (Inl (unpack_at_least 1 0), book))"

definition show_phone :: "string list \<Rightarrow> AddressBook \<Rightarrow> (error + string) \<times> AddressBook" where
  "show_phone args book = input_error (show_phone_body args book)"

definition add_birthday_body :: "string list \<Rightarrow> AddressBook \<Rightarrow> (error + string) \<times> AddressBook" where
  "add_birthday_body args book =
     (case args of
        n # b # _ \<Rightarrow>
          (case AddressBook_find n book of
             Some record \<Rightarrow>
               (case Record_add_birthday b record of
                  (Inl e, record1) \<Rightarrow> (Inl e, mutated n record1 book)
                | (Inr _, record1) \<Rightarrow> (Inr ''Birthday added.'', mutated n record1 book))
           | None \<Rightarrow> (Inr ''Contact not found.'', book))
      | _ \<Rightarrow> (Inl (unpack_at_least 2 (length args)), book))"

definition add_birthday :: "string list \<Rightarrow> AddressBook \<Rightarrow> (error + string) \<times> AddressBook" where
  "add_birthday args book = input_error (add_birthday_body args book)"

definition show_birthday_body :: "string list \<Rightarrow> AddressBook \<Rightarrow> (error + string) \<times> AddressBook" where
  "show_birthday_body args book =
     (case args of
        n # _ \<Rightarrow>
          (case AddressBook_find n book of
             Some record \<Rightarrow>
               (case birthday record of
                  Some b \<Rightarrow> (Inr (n @ '': '' @ strftime_dmY (field_value b)), book)
                | None \<Rightarrow> (Inr ''No birthday found for this contact.'', book))
           | None \<Rightarrow> (Inr ''No birthday found for this contact.'', book))
      | [] \<Rightarrow> (Inl (unpack_at_least 1 0), book))"

definition show_birthday :: "string list \<Rightarrow> AddressBook \<Rightarrow> (error + string) \<times> AddressBook" where
  "show_birthday args book = input_error (show_birthday_body args book)"

text \<open>
  \<open>show_all_contacts\<close>. In \<open>handlers.py\<close> the function takes the argument list and the
  book. In \<open>address_book_v2.py\<close> it takes the book only, while \<open>main\<close> calls every handler
  with the argument list and the book: the call of the decorated function with two
  arguments raises TypeError and the body does not run.
\<close>

definition show_all_contacts_body :: "AddressBook \<Rightarrow> (error + string) \<times> AddressBook" where
  "show_all_contacts_body book =
     (if book = [] then (Inr ''No contacts found.'', book)
      else (Inr (AddressBook_str book), book))"

definition show_all_contacts :: "string list \<Rightarrow> AddressBook \<Rightarrow> (error + string) \<times> AddressBook" where
  "show_all_contacts args book = input_error (show_all_contacts_body book)"

definition show_all_contacts_v2 :: "string list \<Rightarrow> AddressBook \<Rightarrow> (error + string) \<times> AddressBook" where
  "show_all_contacts_v2 args book = input_error (Inl TypeError, book)"

text \<open>One line of the list of upcoming birthdays, and the lines of all records.\<close>

definition upcoming_line :: "Record \<Rightarrow> error + string" where
  "upcoming_line record =
     (case birthday record of
        Some b \<Rightarrow> Inr (field_value (name record) @ '': '' @ strftime_dmY (field_value b))
      | None \<Rightarrow> Inl AttributeError)"

fun upcoming_lines :: "Record list \<Rightarrow> error + string list" where
  "upcoming_lines [] = Inr []"
| "upcoming_lines (r # rs) =
     (case upcoming_line r of
        Inl e \<Rightarrow> Inl e
      | Inr l \<Rightarrow> (case upcoming_lines rs of Inl e \<Rightarrow> Inl e | Inr ls \<Rightarrow> Inr (l # ls)))"

definition show_upcoming_birthdays_body ::
  "datetime \<Rightarrow> string list \<Rightarrow> AddressBook \<Rightarrow> (error + string) \<times> AddressBook" where
  "show_upcoming_birthdays_body today args book =
     (case AddressBook_upcoming_birthdays today book of
        Inl e \<Rightarrow> (Inl e, book)
      | Inr upcoming \<Rightarrow>
          if upcoming = [] then (Inr ''No birthdays in the next 7 days.'', book)
          else
            (case upcoming_lines upcoming of
               Inl e \<Rightarrow> (Inl e, book)
             | Inr ls \<Rightarrow> (Inr (join [CHR 0x0A] ls), book)))"

definition show_upcoming_birthdays ::
  "datetime \<Rightarrow> string list \<Rightarrow> AddressBook \<Rightarrow> (error + string) \<times> AddressBook" where
  "show_upcoming_birthdays today args book =
     input_error (show_upcoming_birthdays_body today args book)"

section \<open>The command loop\<close>

text \<open>
  \<open>str.split()\<close> splits at runs of whitespace and drops empty pieces; \<open>str.strip()\<close> and
  \<open>str.lower()\<close>, on the characters below 256.
\<close>

definition is_space :: "char \<Rightarrow> bool" where
  "is_space c = ((of_char c :: nat) \<in> set [9, 10, 11, 12, 13, 28, 29, 30, 31, 32, 133, 160])"

fun split_from :: "string \<Rightarrow> string \<Rightarrow> string list" where
  "split_from cur [] = (if cur = [] then [] else [cur])"
| "split_from cur (c # cs) =
     (if is_space c then (if cur = [] then split_from [] cs else cur # split_from [] cs)
      else split_from (cur @ [c]) cs)"

definition split :: "string \<Rightarrow> string list" where
  "split s = split_from [] s"

definition strip :: "string \<Rightarrow> string" where
  "strip s = rev (dropWhile is_space (rev (dropWhile is_space s)))"

definition lower_char :: "char \<Rightarrow> char" where
  "lower_char c =
     (let n = (of_char c :: nat) in
      if (65 \<le> n \<and> n \<le> 90) \<or> (192 \<le> n \<and> n \<le> 222 \<and> n \<noteq> 215) then char_of (n + 32) else c)"

definition lower :: "string \<Rightarrow> string" where
  "lower s = map lower_char s"

text \<open>\<open>parse_input\<close>: unpacking the pieces of an empty or blank line raises ValueError.\<close>

definition parse_input :: "string \<Rightarrow> error + (string \<times> string list)" where
  "parse_input user_input =
     (case split user_input of
        [] \<Rightarrow> Inl (unpack_at_least 1 0)
      | cmd # args \<Rightarrow> Inr (lower (strip cmd), args))"

text \<open>
  The table of handlers of \<open>main\<close> in \<open>address_book_v2.py\<close>. A handler is called with the
  argument list and the book; the clock reading of the call is passed to every handler
  and only \<open>show_upcoming_birthdays\<close> reads it.
\<close>

type_synonym handler = "datetime \<Rightarrow> string list \<Rightarrow> AddressBook \<Rightarrow> (error + string) \<times> AddressBook"

definition handlers :: "(string \<times> handler) list" where
  "handlers =
     [(''hello'', \<lambda>now. greet),
      (''add'', \<lambda>now. add_contact),
      (''change'', \<lambda>now. change_contact),
      (''phone'', \<lambda>now. show_phone),
      (''all'', \<lambda>now. show_all_contacts_v2),
      (''add-birthday'', \<lambda>now. add_birthday),
      (''show-birthday'', \<lambda>now. show_birthday),
      (''birthdays'', show_upcoming_birthdays)]"

text \<open>
  \<open>main\<close>: the loop reads one line at a time. The input is the list of the lines still
  to come, each with the clock reading at the time its command runs. The loop ends with
  the exit command, or with an exception that nothing catches; \<open>input\<close> raises EOFError
  when no line is left. The result holds the lines printed so far.
\<close>

datatype outcome = Exited "string list" | Crashed error "string list"

fun main_loop :: "(string \<times> datetime) list \<Rightarrow> AddressBook \<Rightarrow> string list \<Rightarrow> outcome" where
  "main_loop [] book out = Crashed EOFError out"
| "main_loop ((user_input, now) # rest) book out =
     (case parse_input user_input of
        Inl e \<Rightarrow> Crashed e out
      | Inr (command, args) \<Rightarrow>
          if command \<in> set [''close'', ''exit''] then Exited (out @ [''Good bye!''])
          else
            (case map_of handlers command of
               Some h \<Rightarrow>
                 (case h now args book of
                    (Inl e, book') \<Rightarrow> Crashed e out
                  | (Inr msg, book') \<Rightarrow> main_loop rest book' (out @ [msg]))
             | None \<Rightarrow> main_loop rest book (out @ [''Invalid command.''])))"

definition main :: "(string \<times> datetime) list \<Rightarrow> outcome" where
  "main inputs = main_loop inputs [] [''Welcome to the assistant bot!'']"

section \<open>The words of the specification\<close>






text \<open>
  A handler call fails when the function under the decorator raises, or returns the
  message of a contact that was not found.
\<close>

definition failure :: "error + string \<Rightarrow> bool" where
  "failure res = (case res of Inl e \<Rightarrow> True | Inr m \<Rightarrow> m = ''Contact not found.'')"

text \<open>
  The handlers of both entry points (the table of \<open>main.py\<close> has the
  \<open>show_all_contacts\<close> of \<open>handlers.py\<close> under the same command), the books that a
  sequence of handler calls reaches from the empty book, and the consistency of keys and
  names.
\<close>

definition all_handlers :: "(string \<times> handler) list" where
  "all_handlers = handlers @ [(''all'', \<lambda>now. show_all_contacts)]"

inductive reachable :: "AddressBook \<Rightarrow> bool" where
  reachable_empty: "reachable []"
| reachable_call:
    "reachable book \<Longrightarrow> (c, h) \<in> set all_handlers \<Longrightarrow> reachable (snd (h now args book))"

definition key_consistent :: "AddressBook \<Rightarrow> bool" where
  "key_consistent book = list_all (\<lambda>(k, r). field_value (name r) = k) book"

text \<open>
  What a handler does to the book: nothing, or it puts a record with the same name in
  the place of a record it found, or it adds a record under a new key, whose name is
  that key.
\<close>

definition touches :: "AddressBook \<Rightarrow> AddressBook \<Rightarrow> bool" where
  "touches book book' =
     (book' = book
      \<or> (\<exists>n r0 r1. AddressBook_find n book = Some r0 \<and> name r1 = name r0 \<and> book' = dict_set n r1 book)
      \<or> (\<exists>n r1. AddressBook_find n book = None \<and> field_value (name r1) = n \<and> book' = dict_set n r1 book))"

text \<open>
  The window of \<open>upcoming_birthdays\<close>: the calendar date of an object, midnight, an
  object whose date is a date of the calendar, the comparison date of a birthday (the
  birthday with today's year), the condition of the window, and the records whose
  comparison date can be built.
\<close>

definition date_of :: "datetime \<Rightarrow> nat \<times> nat \<times> nat" where
  "date_of t = (year t, month t, day t)"






definition valid_md :: "nat \<times> nat \<times> nat \<Rightarrow> bool" where
  "valid_md x = (case x of (y, m, d) \<Rightarrow> 1 \<le> m \<and> m \<le> 12 \<and> 1 \<le> d \<and> d \<le> days_in_month y m)"

section \<open>Properties\<close>

subsection \<open>Phone\<close>

lemma fullmatch_digits_iff:
  "fullmatch_digits n s \<longleftrightarrow> length s = n \<and> list_all is_digit s"
proof (induction n s rule: fullmatch_digits.induct)
  case (1 s)
  then show ?case by auto
next
  case (2 n)
  then show ?case by simp
next
  case (3 n c s)
  then show ?case by auto
qed


subsection \<open>Digits, parsing and formatting\<close>







































subsection \<open>Birthday\<close>




subsection \<open>Record\<close>

lemma edit_from_found:
  assumes "i \<le> k" "k < length (phones r)" "field_value (phones r ! k) = old_phone"
    "\<forall>j. i \<le> j \<and> j < k \<longrightarrow> field_value (phones r ! j) \<noteq> old_phone"
    "Phone new_phone = Inr p"
  shows "Record_edit_phone_from i old_phone new_phone r = (Inr (), r\<lparr>phones := (phones r)[k := p]\<rparr>)"
  using assms
proof (induction i old_phone new_phone r rule: Record_edit_phone_from.induct)
  case (1 i old_phone new_phone r)
  show ?case
  proof (cases "i = k")
    case True
    then show ?thesis using 1(3,4,6) by (subst Record_edit_phone_from.simps) simp
  next
    case False
    then have lt: "i < k" using 1(2) by simp
    then have ne: "field_value (phones r ! i) \<noteq> old_phone" using 1(5) by simp
    have il: "i < length (phones r)" using lt 1(3) by simp
    have "Record_edit_phone_from (i + 1) old_phone new_phone r
            = (Inr (), r\<lparr>phones := (phones r)[k := p]\<rparr>)"
      using 1(1)[OF il ne] lt 1(3,4,5,6) by simp
    then show ?thesis using il ne by (subst Record_edit_phone_from.simps) simp
  qed
qed

lemma edit_from_missing:
  assumes "\<forall>j. i \<le> j \<and> j < length (phones r) \<longrightarrow> field_value (phones r ! j) \<noteq> old_phone"
  shows "Record_edit_phone_from i old_phone new_phone r
           = (Inl (ValueError (''Phone number '' @ old_phone @ '' not found.'')), r)"
  using assms
proof (induction i old_phone new_phone r rule: Record_edit_phone_from.induct)
  case (1 i old_phone new_phone r)
  show ?case
  proof (cases "i < length (phones r)")
    case True
    then have ne: "field_value (phones r ! i) \<noteq> old_phone" using 1(2) by simp
    have "Record_edit_phone_from (i + 1) old_phone new_phone r
            = (Inl (ValueError (''Phone number '' @ old_phone @ '' not found.'')), r)"
      using 1(1)[OF True ne] 1(2) by simp
    then show ?thesis using True ne by (subst Record_edit_phone_from.simps) simp
  next
    case False
    then show ?thesis by (subst Record_edit_phone_from.simps) simp
  qed
qed

lemma edit_from_invalid:
  assumes "Phone new_phone = Inl e"
  shows "\<exists>msg. Record_edit_phone_from i old_phone new_phone r = (Inl (ValueError msg), r)"
  using assms
proof (induction i old_phone new_phone r rule: Record_edit_phone_from.induct)
  case (1 i old_phone new_phone r)
  have e: "e = ValueError ''Phone number must consist of exactly 10 digits.''"
    using 1(2) by (simp add: Phone_def split: if_splits)
  show ?case
  proof (cases "i < length (phones r)")
    case True
    show ?thesis
    proof (cases "field_value (phones r ! i) = old_phone")
      case eq: True
      then show ?thesis using True 1(2) e by (subst Record_edit_phone_from.simps) simp
    next
      case False
      from 1(1)[OF True False 1(2)] show ?thesis
        using True False by (subst Record_edit_phone_from.simps) simp
    qed
  next
    case False
    then show ?thesis by (subst Record_edit_phone_from.simps) simp
  qed
qed

text \<open>
  Claim C5. \<open>edit_phone\<close> replaces the first phone equal to the old string by the
  validated new Phone and leaves every other phone as it was; it raises the ValueError
  "not found" when no phone equals the old string; and when the new string is not a valid
  phone it raises a ValueError and the record is left as it was.
\<close>

theorem Record_edit_phone_spec:
  "(k < length (phones r) \<and> field_value (phones r ! k) = old_phone
      \<and> (\<forall>j<k. field_value (phones r ! j) \<noteq> old_phone)
      \<and> length new_phone = 10 \<and> list_all is_digit new_phone
    \<longrightarrow> Record_edit_phone old_phone new_phone r
          = (Inr (), r\<lparr>phones := (phones r)[k := Field new_phone]\<rparr>))
   \<and> (old_phone \<notin> set (map field_value (phones r))
    \<longrightarrow> Record_edit_phone old_phone new_phone r
          = (Inl (ValueError (''Phone number '' @ old_phone @ '' not found.'')), r))
   \<and> (\<not> (length new_phone = 10 \<and> list_all is_digit new_phone)
    \<longrightarrow> (\<exists>msg. Record_edit_phone old_phone new_phone r = (Inl (ValueError msg), r)))"
proof (intro conjI impI)
  assume a: "k < length (phones r) \<and> field_value (phones r ! k) = old_phone
      \<and> (\<forall>j<k. field_value (phones r ! j) \<noteq> old_phone)
      \<and> length new_phone = 10 \<and> list_all is_digit new_phone"
  then have p: "Phone new_phone = Inr (Field new_phone)"
    by (simp add: Phone_def fullmatch_digits_iff)
  show "Record_edit_phone old_phone new_phone r
          = (Inr (), r\<lparr>phones := (phones r)[k := Field new_phone]\<rparr>)"
    unfolding Record_edit_phone_def
    using a by (intro edit_from_found[OF _ _ _ _ p]) simp_all
next
  assume a: "old_phone \<notin> set (map field_value (phones r))"
  have "\<forall>j. 0 \<le> j \<and> j < length (phones r) \<longrightarrow> field_value (phones r ! j) \<noteq> old_phone"
  proof (intro allI impI)
    fix j assume "0 \<le> j \<and> j < length (phones r)"
    then have "field_value (phones r ! j) \<in> set (map field_value (phones r))" by simp
    with a show "field_value (phones r ! j) \<noteq> old_phone" by metis
  qed
  then show "Record_edit_phone old_phone new_phone r
          = (Inl (ValueError (''Phone number '' @ old_phone @ '' not found.'')), r)"
    unfolding Record_edit_phone_def by (rule edit_from_missing)
next
  assume "\<not> (length new_phone = 10 \<and> list_all is_digit new_phone)"
  then have "Phone new_phone = Inl (ValueError ''Phone number must consist of exactly 10 digits.'')"
    by (simp add: Phone_def fullmatch_digits_iff)
  then show "\<exists>msg. Record_edit_phone old_phone new_phone r = (Inl (ValueError msg), r)"
    unfolding Record_edit_phone_def by (rule edit_from_invalid)
qed

theorem Record_edit_phone_spec_witness:
  "Record_edit_phone ''1234567890'' ''0000000000''
     \<lparr>name = Field ''Alice'', phones = [Field ''5555555555'', Field ''1234567890'', Field ''1234567890''],
      birthday = None\<rparr>
     = (Inr (), \<lparr>name = Field ''Alice'',
                phones = [Field ''5555555555'', Field ''0000000000'', Field ''1234567890''],
                birthday = None\<rparr>)
   \<and> Record_edit_phone ''1234567890'' ''1111111111''
       \<lparr>name = Field ''Alice'', phones = [Field ''0000000000''], birthday = None\<rparr>
     = (Inl (ValueError ''Phone number 1234567890 not found.''),
        \<lparr>name = Field ''Alice'', phones = [Field ''0000000000''], birthday = None\<rparr>)
   \<and> (\<exists>msg. Record_edit_phone ''1234567890'' ''12''
         \<lparr>name = Field ''Alice'', phones = [Field ''1234567890''], birthday = None\<rparr>
       = (Inl (ValueError msg),
          \<lparr>name = Field ''Alice'', phones = [Field ''1234567890''], birthday = None\<rparr>))"
  using
    Record_edit_phone_spec[of 1 "\<lparr>name = Field ''Alice'',
      phones = [Field ''5555555555'', Field ''1234567890'', Field ''1234567890''],
      birthday = None\<rparr>" "''1234567890''" "''0000000000''"]
    Record_edit_phone_spec[of 0 "\<lparr>name = Field ''Alice'', phones = [Field ''0000000000''],
      birthday = None\<rparr>" "''1234567890''" "''1111111111''"]
    Record_edit_phone_spec[of 0 "\<lparr>name = Field ''Alice'', phones = [Field ''1234567890''],
      birthday = None\<rparr>" "''1234567890''" "''12''"]
  by (simp add: is_digit_def)

subsection \<open>The dictionary\<close>

lemma map_of_dict_set: "map_of (dict_set k v kvs) = (map_of kvs)(k \<mapsto> v)"
  by (induction kvs) (auto simp: fun_eq_iff)

lemma dict_set_same: "map_of kvs k = Some v \<Longrightarrow> dict_set k v kvs = kvs"
  by (induction kvs) (auto split: if_splits)

lemma find_mutated: "AddressBook_find k (mutated n r book) = (if k = n then Some r else AddressBook_find k book)"
  by (simp add: AddressBook_find_def mutated_def map_of_dict_set)

lemma mutated_same: "AddressBook_find n book = Some r \<Longrightarrow> mutated n r book = book"
  by (simp add: AddressBook_find_def mutated_def dict_set_same)

lemma snd_input_error: "snd (input_error res) = snd res"
  by (cases res) (auto simp: input_error_def split: sum.splits error.splits)

subsection \<open>Handlers\<close>

lemma show_nat_small:
  "show_nat 0 = ''0''" "show_nat 1 = ''1''" "show_nat (Suc 0) = ''1''" "show_nat 2 = ''2''"
  "show_nat 3 = ''3''"
  by (simp_all add: show_nat.simps digit_char_def)

text \<open>
  Claim C9. For a name that is not in the directory, \<open>show_birthday\<close> returns the message
  of a contact without a birthday, which is not the message "Contact not found.".
\<close>

theorem show_birthday_absent:
  assumes "n \<notin> set (map fst book)"
  shows "show_birthday (n # rest) book = (Inr ''No birthday found for this contact.'', book)
    \<and> fst (show_birthday (n # rest) book) \<noteq> Inr ''Contact not found.''"
proof -
  have "AddressBook_find n book = None"
    using assms by (simp add: AddressBook_find_def map_of_eq_None_iff)
  then show ?thesis
    by (simp add: show_birthday_def show_birthday_body_def input_error_def)
qed

theorem show_birthday_absent_witness:
  "show_birthday [''Bob'']
     [(''Alice'', \<lparr>name = Field ''Alice'', phones = [Field ''1234567890''], birthday = None\<rparr>)]
   = (Inr ''No birthday found for this contact.'',
      [(''Alice'', \<lparr>name = Field ''Alice'', phones = [Field ''1234567890''], birthday = None\<rparr>)])"
  using show_birthday_absent[of "''Bob''"
      "[(''Alice'', \<lparr>name = Field ''Alice'', phones = [Field ''1234567890''], birthday = None\<rparr>)]" "[]"]
  by simp

text \<open>
  Claim C7, at the failing input. \<open>change_contact\<close> with no argument or with one argument:
  unpacking raises ValueError, not IndexError, and the decorator returns the text of that
  error instead of the fixed message "Error: Missing arguments.".
\<close>

theorem change_contact_missing_arguments:
  "change_contact [] book = (Inr ''not enough values to unpack (expected 3, got 0)'', book)
   \<and> change_contact [x] book = (Inr ''not enough values to unpack (expected 3, got 1)'', book)
   \<and> fst (change_contact [] book) \<noteq> Inr ''Error: Missing arguments.''
   \<and> fst (change_contact [x] book) \<noteq> Inr ''Error: Missing arguments.''"
  by (simp add: change_contact_def change_contact_body_def input_error_def unpack_not_enough_def
      show_nat_small)

subsection \<open>What handlers do to the book\<close>

lemma Record_add_phone_error: "Record_add_phone phone r = (Inl e, r') \<Longrightarrow> r' = r"
  by (auto simp: Record_add_phone_def split: sum.splits)

lemma Record_add_birthday_error: "Record_add_birthday b r = (Inl e, r') \<Longrightarrow> r' = r"
  by (auto simp: Record_add_birthday_def split: sum.splits)

lemma edit_from_error: "Record_edit_phone_from i old_phone new_phone r = (Inl e, r') \<Longrightarrow> r' = r"
proof (induction i old_phone new_phone r rule: Record_edit_phone_from.induct)
  case (1 i old_phone new_phone r)
  from 1(2) show ?case
    by (subst (asm) Record_edit_phone_from.simps) (auto split: if_splits sum.splits intro: 1(1))
qed

lemma Record_edit_phone_error: "Record_edit_phone old_phone new_phone r = (Inl e, r') \<Longrightarrow> r' = r"
  unfolding Record_edit_phone_def by (rule edit_from_error)

lemma Record_init_name: "Record_init n = Inr record \<Longrightarrow> field_value (name record) = n"
  by (auto simp: Record_init_def Name_def split: if_splits)

lemma change_contact_body_failure:
  "failure (fst (change_contact_body args book)) \<Longrightarrow> snd (change_contact_body args book) = book"
  by (auto simp: change_contact_body_def failure_def mutated_same
      split: list.splits option.splits prod.splits sum.splits if_splits
      dest!: Record_edit_phone_error)

lemma add_birthday_body_failure:
  "failure (fst (add_birthday_body args book)) \<Longrightarrow> snd (add_birthday_body args book) = book"
  by (auto simp: add_birthday_body_def failure_def mutated_same
      split: list.splits option.splits prod.splits sum.splits if_splits
      dest!: Record_add_birthday_error)

lemma show_upcoming_birthdays_body_state: "snd (show_upcoming_birthdays_body today args book) = book"
  by (simp add: show_upcoming_birthdays_body_def split: sum.splits)

lemma add_contact_missing: "length args < 2 \<Longrightarrow> snd (add_contact_body args book) = book"
  by (auto simp: add_contact_body_def split: list.splits)

lemma add_contact_empty_name:
  "AddressBook_find [] book = None \<Longrightarrow> snd (add_contact_body ([] # phone # other) book) = book"
  by (simp add: add_contact_body_def Record_init_def Name_def)

lemma add_contact_existing_invalid_phone:
  assumes "AddressBook_find n book = Some r" "phone \<noteq> []" "Phone phone = Inl e"
  shows "add_contact_body (n # phone # other) book = (Inl e, book)"
  using assms by (simp add: add_contact_body_def Record_add_phone_def mutated_same)

lemma add_contact_other_keys:
  assumes "k \<noteq> n"
  shows "AddressBook_find k (snd (add_contact_body (n # phone # other) book)) = AddressBook_find k book"
proof (cases "AddressBook_find n book")
  case (Some r)
  then show ?thesis using assms
    by (auto simp: add_contact_body_def Let_def find_mutated split: prod.splits sum.splits)
next
  case None
  show ?thesis
  proof (cases "Record_init n")
    case (Inl e)
    then show ?thesis using None by (simp add: add_contact_body_def)
  next
    case (Inr r0)
    have "AddressBook_find k (AddressBook_add_record r0 book) = AddressBook_find k book"
      using assms Record_init_name[OF Inr]
      by (simp add: AddressBook_add_record_def AddressBook_find_def map_of_dict_set)
    then show ?thesis using None Inr assms
      by (auto simp: add_contact_body_def Let_def find_mutated split: prod.splits sum.splits)
  qed
qed

lemma key_consistent_dict_set:
  "key_consistent book \<Longrightarrow> field_value (name r) = n \<Longrightarrow> key_consistent (dict_set n r book)"
  unfolding key_consistent_def by (induction book) auto

lemma key_consistent_find:
  "key_consistent book \<Longrightarrow> AddressBook_find n book = Some r \<Longrightarrow> field_value (name r) = n"
  unfolding key_consistent_def AddressBook_find_def
  by (auto dest!: map_of_SomeD simp: list_all_iff)

lemma Record_add_phone_name: "Record_add_phone phone r = (res, r') \<Longrightarrow> name r' = name r"
  by (auto simp: Record_add_phone_def split: sum.splits)

lemma Record_add_birthday_name: "Record_add_birthday b r = (res, r') \<Longrightarrow> name r' = name r"
  by (auto simp: Record_add_birthday_def split: sum.splits)

lemma edit_from_name: "Record_edit_phone_from i old_phone new_phone r = (res, r') \<Longrightarrow> name r' = name r"
proof (induction i old_phone new_phone r rule: Record_edit_phone_from.induct)
  case (1 i old_phone new_phone r)
  from 1(2) show ?case
    by (subst (asm) Record_edit_phone_from.simps) (auto split: if_splits sum.splits intro: 1(1))
qed

lemma Record_edit_phone_name: "Record_edit_phone old_phone new_phone r = (res, r') \<Longrightarrow> name r' = name r"
  unfolding Record_edit_phone_def by (rule edit_from_name)

lemma touches_consistent:
  assumes "touches book book'" "key_consistent book"
  shows "key_consistent book'"
  using assms unfolding touches_def
  by (auto intro!: key_consistent_dict_set dest: key_consistent_find)

lemma touches_name:
  assumes "touches book book'" "AddressBook_find k book = Some r"
  shows "\<exists>r'. AddressBook_find k book' = Some r' \<and> name r' = name r"
  using assms unfolding touches_def
  by (auto simp: AddressBook_find_def map_of_dict_set)

lemma dict_set_twice: "dict_set k v (dict_set k w kvs) = dict_set k v kvs"
  by (induction kvs) auto

lemma add_phone_step_name:
  "name (snd (if phone \<noteq> [] then Record_add_phone phone r else (Inr (), r))) = name r"
  by (simp add: Record_add_phone_def split: sum.splits)

lemma add_birthday_step_name:
  "name (snd (case bday of
                None \<Rightarrow> (Inr (), r)
              | Some b \<Rightarrow> if b \<noteq> [] then Record_add_birthday b r else (Inr (), r))) = name r"
  by (simp add: Record_add_birthday_def split: option.splits sum.splits)

lemma sequence_of_fields:
  fixes s1 :: "(error + unit) \<times> Record" and s2 :: "Record \<Rightarrow> (error + unit) \<times> Record"
    and message :: string
  assumes a1: "name (snd s1) = name r0" and a2: "\<And>r. name (snd (s2 r)) = name r"
  shows "\<exists>r1. name r1 = name r0 \<and>
    snd (case s1 of
           (Inl e, record1) \<Rightarrow> (Inl e, mutated n record1 book1)
         | (Inr u, record1) \<Rightarrow>
             (case s2 record1 of
                (Inl e, record2) \<Rightarrow> (Inl e, mutated n record2 book1)
              | (Inr u, record2) \<Rightarrow> (Inr message, mutated n record2 book1)))
      = dict_set n r1 book1"
proof -
  obtain res1 r1 where s1: "s1 = (res1, r1)" by (cases s1)
  obtain res2 r2 where s2: "s2 r1 = (res2, r2)" by (cases "s2 r1")
  have n1: "name r1 = name r0" using a1 s1 by simp
  have n2: "name r2 = name r0" using a2[of r1] s2 n1 by simp
  show ?thesis
  proof (cases res1)
    case (Inl e)
    have "snd (case s1 of
           (Inl e, record1) \<Rightarrow> (Inl e, mutated n record1 book1)
         | (Inr u, record1) \<Rightarrow>
             (case s2 record1 of
                (Inl e, record2) \<Rightarrow> (Inl e, mutated n record2 book1)
              | (Inr u, record2) \<Rightarrow> (Inr message, mutated n record2 book1))) = dict_set n r1 book1"
      by (simp add: s1 Inl mutated_def)
    with n1 show ?thesis by blast
  next
    case (Inr u)
    have "snd (case s1 of
           (Inl e, record1) \<Rightarrow> (Inl e, mutated n record1 book1)
         | (Inr u, record1) \<Rightarrow>
             (case s2 record1 of
                (Inl e, record2) \<Rightarrow> (Inl e, mutated n record2 book1)
              | (Inr u, record2) \<Rightarrow> (Inr message, mutated n record2 book1))) = dict_set n r2 book1"
      by (cases res2) (simp_all add: s1 s2 Inr mutated_def)
    with n2 show ?thesis by blast
  qed
qed

lemma add_contact_body_found:
  assumes "AddressBook_find n book = Some r0"
  shows "\<exists>r1. name r1 = name r0
           \<and> snd (add_contact_body (n # phone # other) book) = dict_set n r1 book"
  apply (simp only: add_contact_body_def Let_def assms list.case option.case sum.case prod.case)
  apply (rule sequence_of_fields)
   apply (rule add_phone_step_name)
  apply (rule add_birthday_step_name)
  done

lemma add_contact_body_new:
  assumes "AddressBook_find n book = None" "Record_init n = Inr r0"
  shows "\<exists>r1. name r1 = name r0
           \<and> snd (add_contact_body (n # phone # other) book)
               = dict_set n r1 (AddressBook_add_record r0 book)"
  apply (simp only: add_contact_body_def Let_def assms list.case option.case sum.case prod.case)
  apply (rule sequence_of_fields)
   apply (rule add_phone_step_name)
  apply (rule add_birthday_step_name)
  done

lemma touches_add_contact: "touches book (snd (add_contact_body args book))"
proof (cases args)
  case Nil
  then show ?thesis by (simp add: add_contact_body_def touches_def)
next
  case (Cons n rest)
  show ?thesis
  proof (cases rest)
    case Nil
    then show ?thesis using Cons by (simp add: add_contact_body_def touches_def)
  next
    case (Cons phone other)
    note args = \<open>args = n # rest\<close> Cons
    show ?thesis
    proof (cases "AddressBook_find n book")
      case (Some r0)
      from add_contact_body_found[OF Some, of phone other]
      show ?thesis using Some args unfolding touches_def by blast
    next
      case None
      show ?thesis
      proof (cases "Record_init n")
        case (Inl e)
        then show ?thesis using None args by (simp add: add_contact_body_def touches_def)
      next
        case (Inr r0)
        from add_contact_body_new[OF None Inr, of phone other]
        obtain r1 where r1: "name r1 = name r0"
          "snd (add_contact_body args book) = dict_set n r1 (AddressBook_add_record r0 book)"
          using args by blast
        have "snd (add_contact_body args book) = dict_set n r1 book"
          using r1(2) Record_init_name[OF Inr]
          by (simp add: AddressBook_add_record_def dict_set_twice)
        moreover have "field_value (name r1) = n" using r1(1) Record_init_name[OF Inr] by simp
        ultimately show ?thesis using None unfolding touches_def by blast
      qed
    qed
  qed
qed

lemma touches_refl: "touches book book"
  by (simp add: touches_def)

lemma touches_found:
  "AddressBook_find n book = Some r0 \<Longrightarrow> name r1 = name r0 \<Longrightarrow> touches book (dict_set n r1 book)"
  unfolding touches_def by blast

lemma touches_change_contact: "touches book (snd (change_contact_body args book))"
proof (cases "\<exists>n old_phone new_phone. args = [n, old_phone, new_phone]")
  case False
  then have "snd (change_contact_body args book) = book"
    by (auto simp: change_contact_body_def split: list.splits)
  then show ?thesis by (simp add: touches_refl)
next
  case True
  then obtain n old_phone new_phone where args: "args = [n, old_phone, new_phone]" by blast
  show ?thesis
  proof (cases "AddressBook_find n book")
    case None
    then show ?thesis using args by (simp add: change_contact_body_def touches_refl)
  next
    case (Some r0)
    obtain res r1 where e: "Record_edit_phone old_phone new_phone r0 = (res, r1)"
      by (cases "Record_edit_phone old_phone new_phone r0")
    have "snd (change_contact_body args book) = dict_set n r1 book"
      by (cases res) (simp_all add: change_contact_body_def args Some e mutated_def)
    then show ?thesis using touches_found[OF Some Record_edit_phone_name[OF e]] by simp
  qed
qed

lemma touches_add_birthday: "touches book (snd (add_birthday_body args book))"
proof (cases "\<exists>n b rest. args = n # b # rest")
  case False
  then have "snd (add_birthday_body args book) = book"
    by (auto simp: add_birthday_body_def split: list.splits)
  then show ?thesis by (simp add: touches_refl)
next
  case True
  then obtain n b rest where args: "args = n # b # rest" by blast
  show ?thesis
  proof (cases "AddressBook_find n book")
    case None
    then show ?thesis using args by (simp add: add_birthday_body_def touches_refl)
  next
    case (Some r0)
    obtain res r1 where e: "Record_add_birthday b r0 = (res, r1)"
      by (cases "Record_add_birthday b r0")
    have "snd (add_birthday_body args book) = dict_set n r1 book"
      by (cases res) (simp_all add: add_birthday_body_def args Some e mutated_def)
    then show ?thesis using touches_found[OF Some Record_add_birthday_name[OF e]] by simp
  qed
qed

lemma handler_states:
  "snd (show_phone args book) = book" "snd (show_birthday args book) = book"
  "snd (show_all_contacts args book) = book" "snd (show_all_contacts_v2 args book) = book"
  "snd (show_upcoming_birthdays now args book) = book" "snd (greet args book) = book"
proof -
  show "snd (show_phone args book) = book"
    by (simp add: show_phone_def show_phone_body_def snd_input_error split: list.splits option.splits)
  show "snd (show_birthday args book) = book"
    by (simp add: show_birthday_def show_birthday_body_def snd_input_error
        split: list.splits option.splits)
  show "snd (show_all_contacts args book) = book"
    by (simp add: show_all_contacts_def show_all_contacts_body_def snd_input_error)
  show "snd (show_all_contacts_v2 args book) = book"
    by (simp add: show_all_contacts_v2_def snd_input_error)
  show "snd (show_upcoming_birthdays now args book) = book"
    by (simp add: show_upcoming_birthdays_def show_upcoming_birthdays_body_state snd_input_error)
  show "snd (greet args book) = book"
    by (simp add: greet_def)
qed

lemma handler_cases:
  assumes "(c, h) \<in> set all_handlers"
  shows "h = (\<lambda>now. greet) \<or> h = (\<lambda>now. add_contact) \<or> h = (\<lambda>now. change_contact)
    \<or> h = (\<lambda>now. show_phone) \<or> h = (\<lambda>now. show_all_contacts_v2) \<or> h = (\<lambda>now. add_birthday)
    \<or> h = (\<lambda>now. show_birthday) \<or> h = show_upcoming_birthdays \<or> h = (\<lambda>now. show_all_contacts)"
  using assms unfolding all_handlers_def handlers_def by (simp; blast)

lemma touches_handler:
  assumes "(c, h) \<in> set all_handlers"
  shows "touches book (snd (h now args book))"
proof -
  have a: "touches book (snd (add_contact args book))"
    by (simp add: add_contact_def snd_input_error touches_add_contact)
  have b: "touches book (snd (change_contact args book))"
    by (simp add: change_contact_def snd_input_error touches_change_contact)
  have c: "touches book (snd (add_birthday args book))"
    by (simp add: add_birthday_def snd_input_error touches_add_birthday)
  from handler_cases[OF assms] show ?thesis
    by (elim disjE) (simp_all add: a b c handler_states touches_refl)
qed

lemma reachable_consistent: "reachable book \<Longrightarrow> key_consistent book"
proof (induction rule: reachable.induct)
  case reachable_empty
  show ?case by (simp add: key_consistent_def)
next
  case (reachable_call book c h now args)
  from touches_consistent[OF touches_handler[OF reachable_call(2)] reachable_call(3)]
  show ?case .
qed

text \<open>
  Claim C6, as the code has it. A handler other than \<open>add_contact\<close> that raises or
  returns "Contact not found." leaves the book as it was, and the handlers that only
  show something never change it. \<open>add_contact\<close> leaves the book as it was when it
  fails for missing arguments, for an empty new name, or for an invalid phone of a contact
  that exists; and whatever it does, it changes nothing but the entry of the given name.
\<close>

theorem handler_failure_state:
  "(failure (fst (change_contact_body a1 book)) \<longrightarrow> snd (change_contact a1 book) = book)
   \<and> (failure (fst (add_birthday_body a2 book)) \<longrightarrow> snd (add_birthday a2 book) = book)
   \<and> snd (show_phone a3 book) = book
   \<and> snd (show_birthday a4 book) = book
   \<and> snd (show_all_contacts a5 book) = book
   \<and> snd (show_all_contacts_v2 a5 book) = book
   \<and> snd (show_upcoming_birthdays today a6 book) = book
   \<and> snd (greet a7 book) = book
   \<and> (length a8 < 2 \<longrightarrow> snd (add_contact a8 book) = book)
   \<and> (AddressBook_find [] book = None \<longrightarrow> snd (add_contact ([] # phone1 # other1) book) = book)
   \<and> (AddressBook_find n2 book = Some r2 \<and> phone2 \<noteq> []
        \<and> \<not> (length phone2 = 10 \<and> list_all is_digit phone2)
      \<longrightarrow> snd (add_contact (n2 # phone2 # other2) book) = book)
   \<and> (k \<noteq> n \<longrightarrow>
        AddressBook_find k (snd (add_contact (n # phone # other) book)) = AddressBook_find k book)"
proof (intro conjI impI)
  assume "failure (fst (change_contact_body a1 book))"
  then show "snd (change_contact a1 book) = book"
    by (simp add: change_contact_def snd_input_error change_contact_body_failure)
next
  assume "failure (fst (add_birthday_body a2 book))"
  then show "snd (add_birthday a2 book) = book"
    by (simp add: add_birthday_def snd_input_error add_birthday_body_failure)
next
  assume "length a8 < 2"
  then show "snd (add_contact a8 book) = book"
    by (simp add: add_contact_def snd_input_error add_contact_missing)
next
  assume "AddressBook_find [] book = None"
  then show "snd (add_contact ([] # phone1 # other1) book) = book"
    by (simp add: add_contact_def snd_input_error add_contact_empty_name)
next
  assume a: "AddressBook_find n2 book = Some r2 \<and> phone2 \<noteq> []
        \<and> \<not> (length phone2 = 10 \<and> list_all is_digit phone2)"
  then have "Phone phone2 = Inl (ValueError ''Phone number must consist of exactly 10 digits.'')"
    by (simp add: Phone_def fullmatch_digits_iff)
  with a show "snd (add_contact (n2 # phone2 # other2) book) = book"
    by (simp add: add_contact_def snd_input_error add_contact_existing_invalid_phone)
next
  assume "k \<noteq> n"
  then show "AddressBook_find k (snd (add_contact (n # phone # other) book)) = AddressBook_find k book"
    by (simp add: add_contact_def snd_input_error add_contact_other_keys)
qed (simp_all add: handler_states)

theorem handler_failure_state_witness:
  "snd (change_contact [''Bob'', ''0000000000'', ''1111111111'']
      [(''Alice'', \<lparr>name = Field ''Alice'', phones = [Field ''1234567890''], birthday = None\<rparr>)])
     = [(''Alice'', \<lparr>name = Field ''Alice'', phones = [Field ''1234567890''], birthday = None\<rparr>)]
   \<and> snd (add_birthday [''Bob'']
      [(''Alice'', \<lparr>name = Field ''Alice'', phones = [Field ''1234567890''], birthday = None\<rparr>)])
     = [(''Alice'', \<lparr>name = Field ''Alice'', phones = [Field ''1234567890''], birthday = None\<rparr>)]
   \<and> snd (add_contact [''Bob'']
      [(''Alice'', \<lparr>name = Field ''Alice'', phones = [Field ''1234567890''], birthday = None\<rparr>)])
     = [(''Alice'', \<lparr>name = Field ''Alice'', phones = [Field ''1234567890''], birthday = None\<rparr>)]
   \<and> snd (add_contact ['''', ''1234567890'']
      [(''Alice'', \<lparr>name = Field ''Alice'', phones = [Field ''1234567890''], birthday = None\<rparr>)])
     = [(''Alice'', \<lparr>name = Field ''Alice'', phones = [Field ''1234567890''], birthday = None\<rparr>)]
   \<and> snd (add_contact [''Alice'', ''123'']
      [(''Alice'', \<lparr>name = Field ''Alice'', phones = [Field ''1234567890''], birthday = None\<rparr>)])
     = [(''Alice'', \<lparr>name = Field ''Alice'', phones = [Field ''1234567890''], birthday = None\<rparr>)]
   \<and> AddressBook_find ''Alice'' (snd (add_contact [''John'', ''123'']
      [(''Alice'', \<lparr>name = Field ''Alice'', phones = [Field ''1234567890''], birthday = None\<rparr>)]))
     = Some \<lparr>name = Field ''Alice'', phones = [Field ''1234567890''], birthday = None\<rparr>"
  using handler_failure_state[
      where ?a1.0 = "[''Bob'', ''0000000000'', ''1111111111'']"
        and ?a2.0 = "[''Bob'']" and ?a8.0 = "[''Bob'']"
        and book = "[(''Alice'', \<lparr>name = Field ''Alice'', phones = [Field ''1234567890''],
                       birthday = None\<rparr>)]"
        and ?phone1.0 = "''1234567890''" and ?other1.0 = "[]"
        and ?n2.0 = "''Alice''" and ?phone2.0 = "''123''" and ?other2.0 = "[]"
        and ?r2.0 = "\<lparr>name = Field ''Alice'', phones = [Field ''1234567890''], birthday = None\<rparr>"
        and k = "''Alice''" and n = "''John''" and phone = "''123''" and other = "[]"]
  by (simp add: failure_def change_contact_body_def add_birthday_body_def AddressBook_find_def
      unpack_at_least_def)

text \<open>
  The claim as the specification states it fails: \<open>add_contact\<close> with a new name and an
  invalid phone, or a valid phone and an invalid birthday, returns the validator's message
  and leaves the new contact in the book.
\<close>

theorem add_contact_not_atomic_counterexample:
  "add_contact [''John'', ''123''] []
     = (Inr ''Phone number must consist of exactly 10 digits.'',
        [(''John'', \<lparr>name = Field ''John'', phones = [], birthday = None\<rparr>)])
   \<and> add_contact [''John'', ''1234567890'', ''99.99.9999''] []
     = (Inr ''Invalid date format. Use DD.MM.YYYY.'',
        [(''John'', \<lparr>name = Field ''John'', phones = [Field ''1234567890''], birthday = None\<rparr>)])"
  by (simp add: add_contact_def add_contact_body_def input_error_def AddressBook_find_def
      Record_init_def Name_def AddressBook_add_record_def Record_add_phone_def Phone_def
      fullmatch_digits_iff is_digit_def mutated_def Record_add_birthday_def Birthday_def
      strptime_dmY_def re_dmY_def re_d_def re_dot_def)

subsection \<open>The invariant of the book\<close>

text \<open>
  Claim C10. In every book that a sequence of handler calls reaches from the empty book,
  each key is the name of the record stored under it; and a handler call keeps every
  record that is in the book under its key, with the name it had.
\<close>

theorem key_consistency:
  assumes "reachable book"
  shows "key_consistent book
    \<and> (\<forall>c h now args k r.
          (c, h) \<in> set all_handlers \<and> AddressBook_find k book = Some r
          \<longrightarrow> (\<exists>r'. AddressBook_find k (snd (h now args book)) = Some r' \<and> name r' = name r))"
proof (intro conjI allI impI)
  show "key_consistent book" using assms by (rule reachable_consistent)
next
  fix c h now args k r
  assume "(c, h) \<in> set all_handlers \<and> AddressBook_find k book = Some r"
  then show "\<exists>r'. AddressBook_find k (snd (h now args book)) = Some r' \<and> name r' = name r"
    using touches_name[OF touches_handler] by blast
qed

theorem key_consistency_witness:
  "reachable [(''Alice'', \<lparr>name = Field ''Alice'', phones = [Field ''1234567890''], birthday = None\<rparr>)]
   \<and> key_consistent
        [(''Alice'', \<lparr>name = Field ''Alice'', phones = [Field ''1234567890''], birthday = None\<rparr>)]
   \<and> (\<exists>r'. AddressBook_find ''Alice''
          (snd (change_contact [''Alice'', ''1234567890'', ''0000000000'']
             [(''Alice'', \<lparr>name = Field ''Alice'', phones = [Field ''1234567890''],
                           birthday = None\<rparr>)])) = Some r'
        \<and> name r' = Field ''Alice'')"
proof -
  let ?r = "\<lparr>name = Field ''Alice'', phones = [Field ''1234567890''], birthday = None\<rparr>"
  let ?B = "[(''Alice'', ?r)]"
  let ?t = "\<lparr>year = 2024, month = 6, day = 15, hour = 10, minute = 0, second = 0, microsecond = 0\<rparr>"
  have ev: "add_contact [''Alice'', ''1234567890''] [] = (Inr ''Contact added.'', ?B)"
    by (simp add: add_contact_def add_contact_body_def input_error_def AddressBook_find_def
        Record_init_def Name_def AddressBook_add_record_def Record_add_phone_def Phone_def
        fullmatch_digits_iff is_digit_def mutated_def)
  have m1: "(''add'', \<lambda>now. add_contact) \<in> set all_handlers"
    by (simp add: all_handlers_def handlers_def)
  have m2: "(''change'', \<lambda>now. change_contact) \<in> set all_handlers"
    by (simp add: all_handlers_def handlers_def)
  have r: "reachable ?B"
    using reachable_call[OF reachable_empty m1, of "[''Alice'', ''1234567890'']"] ev by simp
  have f: "AddressBook_find ''Alice'' ?B = Some ?r" by (simp add: AddressBook_find_def)
  from key_consistency[OF r] have kc: "key_consistent ?B"
    and st: "\<exists>r'. AddressBook_find ''Alice''
          (snd ((\<lambda>now. change_contact) ?t [''Alice'', ''1234567890'', ''0000000000''] ?B)) = Some r'
        \<and> name r' = name ?r"
    using m2 f by blast+
  show ?thesis using r kc st by simp
qed

subsection \<open>The command loop\<close>

text \<open>
  Claim C8, at the failing inputs. An empty input line ends the loop of
  \<open>address_book_v2.py\<close> with the ValueError of \<open>parse_input\<close>, which is raised outside
  every handler; and the command \<open>all\<close> ends it with the TypeError of the call of
  \<open>show_all_contacts\<close>, which the decorator does not catch.
\<close>

theorem main_loop_crashes:
  "main (('''', now) # rest)
     = Crashed (ValueError ''not enough values to unpack (expected at least 1, got 0)'')
         [''Welcome to the assistant bot!'']
   \<and> main ((''all'', now) # rest) = Crashed TypeError [''Welcome to the assistant bot!'']"
  by (simp add: main_def parse_input_def split_def is_space_def strip_def lower_def
      lower_char_def unpack_at_least_def show_nat_small handlers_def show_all_contacts_v2_def
      input_error_def)

subsection \<open>Upcoming birthdays\<close>











lemma days_in_month_ge: "28 \<le> days_in_month y m"
  by (simp add: days_in_month_def)

lemma valid_md_next_day: "valid_md (date_of t) \<Longrightarrow> valid_md (date_of (next_day t))"
  using days_in_month_ge[of "year t" "month t + 1"] days_in_month_ge[of "year t + 1" 1]
  by (auto simp: valid_md_def date_of_def next_day_def)

lemma valid_md_add_days: "valid_md (date_of t) \<Longrightarrow> valid_md (date_of (add_days n t))"
  by (induction n arbitrary: t) (simp_all add: valid_md_next_day)












subsection \<open>Days to the next birthday\<close>

text \<open>
  Claim C2, at the failing input. On the birthday itself, at ten in the morning, the
  candidate is midnight of today, which is before the current time: the candidate is
  moved to the next year and the method returns 364, where the claim says that a birthday
  falling on today is not advanced and the difference is 0. On the day before the
  birthday the method returns 0.
\<close>

theorem days_to_birthday_on_the_day:
  "Record_days_to_birthday
     \<lparr>year = 2024, month = 6, day = 15, hour = 10, minute = 0, second = 0, microsecond = 0\<rparr>
     \<lparr>name = Field ''Ann'', phones = [],
      birthday = Some (Field \<lparr>year = 1990, month = 6, day = 15, hour = 0, minute = 0,
                               second = 0, microsecond = 0\<rparr>)\<rparr>
     = Inr (Some 364)
   \<and> Record_days_to_birthday
     \<lparr>year = 2024, month = 6, day = 14, hour = 10, minute = 0, second = 0, microsecond = 0\<rparr>
     \<lparr>name = Field ''Ann'', phones = [],
      birthday = Some (Field \<lparr>year = 1990, month = 6, day = 15, hour = 0, minute = 0,
                               second = 0, microsecond = 0\<rparr>)\<rparr>
     = Inr (Some 0)"
  by (simp add: Record_days_to_birthday_def replace_year_def check_date_fields_def
      days_in_month_def is_leap_def dt_less_def dt_key_def minus_days_def dt_micros_def
      ymd2ord_def days_before_year_def days_before_month_def)

end
